theory Spec2Isabelle
  imports Complex_Main "HOL-Library.Char_ord" "HOL-Library.List_Lexorder"
begin

section \<open>Data model (src/types/geofence.ts, src/types/location.ts)\<close>

text \<open>
  JavaScript numbers are IEEE doubles. A stored coordinate or time value is given by the
  \<^typ>\<open>real\<close> number it holds; \<open>NaN\<close> is kept as a value of its own where well-typed
  input can produce it (the time value of an unparsable date string). The geometry of
  geofence.ts is written over the reals; the theorems about the presence tracker take the
  outcome of the containment test as given. The statistics of route.ts are written over
  the arithmetic of the runtime, which is a parameter. Strings are compared as the code
  compares them, lexicographically by character code.

  Record fields share one name space, so the fields of the interfaces carry a short prefix
  where two interfaces use the same name. Fields that the modelled functions only pass
  through (notifications, colour, opacity, creation data) are left out of \<open>Geofence\<close>.
\<close>

datatype jsnum = NaN | Num real

datatype error = TypeError | Error string

datatype GeofenceType = WORKPLACE | CLIENT_SITE | RESTRICTED | CUSTOM

datatype ShapeType = circle | polygon

record Coord =
  c_latitude :: real
  c_longitude :: real

record GeofenceCoordinates =
  center :: "Coord option"
  points :: "Coord list option"

record DaySchedule =
  ds_start :: string
  ds_end :: string
  ds_active :: bool

record GeofenceWorkingHours =
  enabled :: bool
  schedule :: "string \<rightharpoonup> DaySchedule"

record Geofence =
  g_id :: string
  g_companyId :: string
  g_name :: string
  g_type :: GeofenceType
  g_shape :: ShapeType
  g_coordinates :: GeofenceCoordinates
  g_radius :: "real option"
  g_isActive :: bool
  g_workingHours :: "GeofenceWorkingHours option"

datatype LocationSource = GPS | NETWORK | MANUAL | GEOFENCE

record LocationData =
  l_id :: string
  l_userId :: string
  latitude :: real
  longitude :: real
  accuracy :: real
  timestamp :: string
  address :: "string option"
  isManual :: bool
  source :: LocationSource
  speed :: "real option"
  heading :: "real option"
  altitude :: "real option"

datatype GeofenceEventType = ENTER | EXIT | DWELL

record EventLocation =
  el_latitude :: real
  el_longitude :: real
  el_accuracy :: real

record EventMetadata =
  geofenceName :: string
  geofenceType :: GeofenceType
  dwellTime :: "jsnum option"

record GeofenceEvent =
  e_id :: string
  e_userId :: string
  e_geofenceId :: string
  eventType :: GeofenceEventType
  e_timestamp :: string
  e_location :: EventLocation
  duration :: "jsnum option"
  isWorkingHours :: bool
  metadata :: EventMetadata

record GeofenceEntry =
  geofenceId :: string
  entryTime :: string
  isAuthorized :: bool

record GeofenceExit =
  x_geofenceId :: string
  exitTime :: string
  x_duration :: jsnum

record GeofenceStatus =
  s_userId :: string
  currentGeofences :: "GeofenceEntry list"
  lastGeofenceExit :: "GeofenceExit option"

text \<open>The two private fields of class \<open>GeofenceService\<close>.\<close>

record GeofenceService =
  activeGeofences :: "Geofence list"
  userStatus :: "string \<rightharpoonup> GeofenceStatus"

section \<open>What the JavaScript runtime supplies\<close>

text \<open>
  \<open>new Date()\<close> is read through two of its methods only:
  \<open>toLocaleDateString('en-US', {weekday: 'short'})\<close> and \<open>toTimeString()\<close>.
  \<open>new Date(s).getTime()\<close> is the runtime's date parser (\<open>NaN\<close> for an invalid date), and
  \<open>generateEventId\<close> draws on \<open>Date.now()\<close> and \<open>Math.random()\<close>. All three are parameters
  of the model; one reading of the clock is supplied per call of \<open>checkGeofenceEntry\<close>, and
  the identifier of an event is looked up by its position in the output list.
\<close>

record JsDate =
  weekdayShort :: string
  toTimeString :: string

record runtime =
  newDate :: JsDate
  getTime :: "string \<Rightarrow> jsnum"
  generateEventId :: "nat \<Rightarrow> string"

definition toLowerCase :: "string \<Rightarrow> string" where
  "toLowerCase s =
     map (\<lambda>c. if CHR ''A'' \<le> c \<and> c \<le> CHR ''Z'' then char_of (of_char c + (32::nat)) else c) s"

fun js_sub :: "jsnum \<Rightarrow> jsnum \<Rightarrow> jsnum" where
  "js_sub (Num a) (Num b) = Num (a - b)"
| "js_sub _ _ = NaN"

fun js_div :: "jsnum \<Rightarrow> real \<Rightarrow> jsnum" where
  "js_div (Num a) d = Num (a / d)"
| "js_div NaN d = NaN"

fun js_floor :: "jsnum \<Rightarrow> jsnum" where
  "js_floor (Num a) = Num (of_int \<lfloor>a\<rfloor>)"
| "js_floor NaN = NaN"

section \<open>Geometry (src/lib/geofence.ts)\<close>

definition toRadians :: "real \<Rightarrow> real" where
  "toRadians degrees = degrees * (pi / 180)"

definition atan2 :: "real \<Rightarrow> real \<Rightarrow> real" where
  "atan2 y x =
     (if 0 < x then arctan (y / x)
      else if x < 0 \<and> 0 \<le> y then arctan (y / x) + pi
      else if x < 0 then arctan (y / x) - pi
      else if 0 < y then pi / 2
      else if y < 0 then - (pi / 2)
      else 0)"

text \<open>The term \<open>a\<close> of the haversine formula in \<open>calculateDistance\<close> of geofence.ts.\<close>

definition haversine_a :: "real \<Rightarrow> real \<Rightarrow> real \<Rightarrow> real \<Rightarrow> real" where
  "haversine_a lat1 lon1 lat2 lon2 =
     (let dLat = toRadians (lat2 - lat1);
          dLon = toRadians (lon2 - lon1)
      in sin (dLat / 2) * sin (dLat / 2) +
         cos (toRadians lat1) * cos (toRadians lat2) *
         sin (dLon / 2) * sin (dLon / 2))"

definition calculateDistance :: "real \<Rightarrow> real \<Rightarrow> real \<Rightarrow> real \<Rightarrow> real" where
  "calculateDistance lat1 lon1 lat2 lon2 =
     (let R = 6371000;
          a = haversine_a lat1 lon1 lat2 lon2;
          c = 2 * atan2 (sqrt a) (sqrt (1 - a))
      in R * c)"

text \<open>\<open>distance <= radiusMeters\<close> is false when the radius is \<open>undefined\<close>.\<close>

definition isPointInCircle :: "real \<Rightarrow> real \<Rightarrow> real \<Rightarrow> real \<Rightarrow> real option \<Rightarrow> bool" where
  "isPointInCircle pointLat pointLon centerLat centerLon radiusMeters =
     (let distance = calculateDistance pointLat pointLon centerLat centerLon
      in case radiusMeters of None \<Rightarrow> False | Some r \<Rightarrow> distance \<le> r)"

text \<open>
  The ray-casting loop \<open>for (i = 0, j = n - 1; i < n; j = i++)\<close>: the state is the pair
  of \<open>j\<close> and \<open>inside\<close>.
\<close>

definition rayStep :: "real \<Rightarrow> real \<Rightarrow> Coord list \<Rightarrow> nat \<Rightarrow> nat \<times> bool \<Rightarrow> nat \<times> bool" where
  "rayStep x y polygonPoints i st =
     (let j = fst st; inside = snd st;
          xi = c_longitude (polygonPoints ! i);
          yi = c_latitude (polygonPoints ! i);
          xj = c_longitude (polygonPoints ! j);
          yj = c_latitude (polygonPoints ! j)
      in (i, if ((yi > y) \<noteq> (yj > y)) \<and> (x < (xj - xi) * (y - yi) / (yj - yi) + xi)
             then \<not> inside else inside))"

definition isPointInPolygon :: "real \<Rightarrow> real \<Rightarrow> Coord list \<Rightarrow> bool" where
  "isPointInPolygon pointLat pointLon polygonPoints =
     (let x = pointLon; y = pointLat
      in snd (fold (rayStep x y polygonPoints) [0..<length polygonPoints]
                (length polygonPoints - 1, False)))"

text \<open>
  \<open>geofence.coordinates.center!.latitude\<close> and \<open>polygonPoints.length\<close> throw a
  \<open>TypeError\<close> when the optional field is absent.
\<close>

definition isLocationInsideGeofence :: "LocationData \<Rightarrow> Geofence \<Rightarrow> error + bool" where
  "isLocationInsideGeofence location geofence =
     (case g_shape geofence of
        circle \<Rightarrow>
          (case center (g_coordinates geofence) of
             None \<Rightarrow> Inl TypeError
           | Some c \<Rightarrow>
               Inr (isPointInCircle (latitude location) (longitude location)
                      (c_latitude c) (c_longitude c) (g_radius geofence)))
      | polygon \<Rightarrow>
          (case points (g_coordinates geofence) of
             None \<Rightarrow> Inl TypeError
           | Some ps \<Rightarrow>
               Inr (isPointInPolygon (latitude location) (longitude location) ps)))"

section \<open>Working hours and authorization\<close>

definition isWithinWorkingHours :: "JsDate \<Rightarrow> Geofence \<Rightarrow> bool" where
  "isWithinWorkingHours now geofence =
     (case g_workingHours geofence of
        None \<Rightarrow> True
      | Some wh \<Rightarrow>
          if \<not> enabled wh then True
          else
            let dayOfWeek = toLowerCase (weekdayShort now);
                currentTime = take 5 (toTimeString now)
            in (case schedule wh dayOfWeek of
                  None \<Rightarrow> False
                | Some daySchedule \<Rightarrow>
                    if \<not> ds_active daySchedule then False
                    else (currentTime \<ge> ds_start daySchedule) \<and>
                         (currentTime \<le> ds_end daySchedule)))"

definition isAuthorizedAccess :: "JsDate \<Rightarrow> Geofence \<Rightarrow> bool" where
  "isAuthorizedAccess now geofence =
     (if \<not> isWithinWorkingHours now geofence then False else True)"

section \<open>The presence tracker: checkGeofenceEntry\<close>

definition enterEvent :: "runtime \<Rightarrow> LocationData \<Rightarrow> string \<Rightarrow> Geofence \<Rightarrow> nat \<Rightarrow> GeofenceEvent" where
  "enterEvent rt location userId geofence k =
     \<lparr> e_id = generateEventId rt k,
       e_userId = userId,
       e_geofenceId = g_id geofence,
       eventType = ENTER,
       e_timestamp = timestamp location,
       e_location = \<lparr> el_latitude = latitude location,
                      el_longitude = longitude location,
                      el_accuracy = accuracy location \<rparr>,
       duration = None,
       isWorkingHours = isWithinWorkingHours (newDate rt) geofence,
       metadata = \<lparr> geofenceName = g_name geofence,
                    geofenceType = g_type geofence,
                    dwellTime = None \<rparr> \<rparr>"

definition exitDuration :: "runtime \<Rightarrow> LocationData \<Rightarrow> GeofenceEntry option \<Rightarrow> jsnum" where
  "exitDuration rt location entryInfo =
     (case entryInfo of
        Some info \<Rightarrow>
          js_floor (js_div (js_div (js_sub (getTime rt (timestamp location))
                                           (getTime rt (entryTime info))) 1000) 60)
      | None \<Rightarrow> Num 0)"

definition exitEvent :: "runtime \<Rightarrow> LocationData \<Rightarrow> string \<Rightarrow> Geofence \<Rightarrow> nat \<Rightarrow> jsnum \<Rightarrow> GeofenceEvent" where
  "exitEvent rt location userId geofence k d =
     \<lparr> e_id = generateEventId rt k,
       e_userId = userId,
       e_geofenceId = g_id geofence,
       eventType = EXIT,
       e_timestamp = timestamp location,
       e_location = \<lparr> el_latitude = latitude location,
                      el_longitude = longitude location,
                      el_accuracy = accuracy location \<rparr>,
       duration = Some d,
       isWorkingHours = isWithinWorkingHours (newDate rt) geofence,
       metadata = \<lparr> geofenceName = g_name geofence,
                    geofenceType = g_type geofence,
                    dwellTime = Some d \<rparr> \<rparr>"

definition wasInsideOf :: "GeofenceStatus \<Rightarrow> Geofence \<Rightarrow> bool" where
  "wasInsideOf currentStatus geofence =
     list_ex (\<lambda>g. geofenceId g = g_id geofence) (currentGeofences currentStatus)"

text \<open>
  The body of \<open>for (const geofence of this.activeGeofences)\<close>, after the containment test:
  it takes the event list and the status object and returns both as the iteration leaves
  them. \<open>push\<close> appends in place; \<open>filter\<close> builds a new array.
\<close>

definition loopBody ::
  "runtime \<Rightarrow> LocationData \<Rightarrow> string \<Rightarrow> Geofence \<Rightarrow> bool \<Rightarrow> GeofenceEvent list \<Rightarrow> GeofenceStatus
     \<Rightarrow> GeofenceEvent list \<times> GeofenceStatus" where
  "loopBody rt location userId geofence isInside events currentStatus =
     (let wasInside = wasInsideOf currentStatus geofence in
      if isInside \<and> \<not> wasInside then
        (events @ [enterEvent rt location userId geofence (length events)],
         currentStatus\<lparr> currentGeofences := currentGeofences currentStatus @
            [\<lparr> geofenceId = g_id geofence,
               entryTime = timestamp location,
               isAuthorized = isAuthorizedAccess (newDate rt) geofence \<rparr>] \<rparr>)
      else if \<not> isInside \<and> wasInside then
        (let entryInfo = find (\<lambda>g. geofenceId g = g_id geofence) (currentGeofences currentStatus);
             d = exitDuration rt location entryInfo
         in (events @ [exitEvent rt location userId geofence (length events) d],
             currentStatus\<lparr>
               currentGeofences :=
                 filter (\<lambda>g. geofenceId g \<noteq> g_id geofence) (currentGeofences currentStatus),
               lastGeofenceExit :=
                 Some \<lparr> x_geofenceId = g_id geofence,
                        exitTime = timestamp location,
                        x_duration = d \<rparr> \<rparr>))
      else (events, currentStatus))"

text \<open>
  The loop. When the containment test throws, the loop stops; the status is returned as it
  stands, since an object that was already stored in \<open>userStatus\<close> has been mutated in place.
\<close>

fun checkLoop ::
  "runtime \<Rightarrow> LocationData \<Rightarrow> string \<Rightarrow> Geofence list \<Rightarrow> GeofenceEvent list \<Rightarrow> GeofenceStatus
     \<Rightarrow> (error + GeofenceEvent list) \<times> GeofenceStatus" where
  "checkLoop rt location userId [] events currentStatus = (Inr events, currentStatus)"
| "checkLoop rt location userId (geofence # rest) events currentStatus =
     (case isLocationInsideGeofence location geofence of
        Inl err \<Rightarrow> (Inl err, currentStatus)
      | Inr isInside \<Rightarrow>
          checkLoop rt location userId rest
            (fst (loopBody rt location userId geofence isInside events currentStatus))
            (snd (loopBody rt location userId geofence isInside events currentStatus)))"

definition freshStatus :: "string \<Rightarrow> GeofenceStatus" where
  "freshStatus userId = \<lparr> s_userId = userId, currentGeofences = [], lastGeofenceExit = None \<rparr>"

text \<open>
  \<open>this.userStatus.get(userId) || {...}\<close>: a stored status is an object, hence truthy. The
  call returns the events, or the error thrown, together with the service afterwards.
  \<open>this.userStatus.set\<close> is reached only when the loop completes; a stored status mutated
  before a throw stays mutated, a freshly made one is lost.
\<close>

definition checkGeofenceEntry ::
  "runtime \<Rightarrow> LocationData \<Rightarrow> string \<Rightarrow> GeofenceService \<Rightarrow> (error + GeofenceEvent list) \<times> GeofenceService" where
  "checkGeofenceEntry rt location userId svc =
     (let stored = userStatus svc userId;
          currentStatus = (case stored of Some s \<Rightarrow> s | None \<Rightarrow> freshStatus userId);
          r = checkLoop rt location userId (activeGeofences svc) [] currentStatus
      in case fst r of
           Inr events \<Rightarrow> (Inr events, svc\<lparr> userStatus := (userStatus svc)(userId \<mapsto> snd r) \<rparr>)
         | Inl err \<Rightarrow>
             (Inl err,
              case stored of
                Some s \<Rightarrow> svc\<lparr> userStatus := (userStatus svc)(userId \<mapsto> snd r) \<rparr>
              | None \<Rightarrow> svc))"

definition getUserGeofenceStatus :: "GeofenceService \<Rightarrow> string \<Rightarrow> GeofenceStatus option" where
  "getUserGeofenceStatus svc userId = userStatus svc userId"

section \<open>The zone registry: load, create, update, delete\<close>

text \<open>
  The four registry methods await \<open>fetch\<close>. The outcome of the request is a parameter:
  the promise rejects, or it resolves to a response with its \<open>ok\<close> flag and its parsed body
  (\<open>None\<close> when \<open>response.json()\<close> rejects). Each method returns its result, or the error it
  rethrows, together with the service afterwards.
\<close>

datatype 'a fetched = Rejected | Response bool "'a option"

definition loadGeofences ::
  "Geofence list fetched \<Rightarrow> GeofenceService \<Rightarrow> Geofence list \<times> GeofenceService" where
  "loadGeofences resp svc =
     (case resp of
        Response True (Some geofences) \<Rightarrow>
          (filter g_isActive geofences, svc\<lparr> activeGeofences := filter g_isActive geofences \<rparr>)
      | _ \<Rightarrow> ([], svc))"

definition createGeofence ::
  "Geofence fetched \<Rightarrow> GeofenceService \<Rightarrow> (error + Geofence) \<times> GeofenceService" where
  "createGeofence resp svc =
     (case resp of
        Rejected \<Rightarrow> (Inl (Error ''fetch failed''), svc)
      | Response ok body \<Rightarrow>
          if \<not> ok then (Inl (Error ''Failed to create geofence''), svc)
          else (case body of
                  None \<Rightarrow> (Inl (Error ''invalid json''), svc)
                | Some newGeofence \<Rightarrow>
                    (Inr newGeofence,
                     if g_isActive newGeofence
                     then svc\<lparr> activeGeofences := activeGeofences svc @ [newGeofence] \<rparr>
                     else svc)))"

fun findIndex :: "('a \<Rightarrow> bool) \<Rightarrow> 'a list \<Rightarrow> nat option" where
  "findIndex P [] = None"
| "findIndex P (x # xs) =
     (if P x then Some 0 else map_option Suc (findIndex P xs))"

text \<open>\<open>splice(index, 1)\<close> removes the one element at \<open>index\<close>.\<close>

definition splice1 :: "nat \<Rightarrow> 'a list \<Rightarrow> 'a list" where
  "splice1 index xs = take index xs @ drop (Suc index) xs"

definition updateGeofence ::
  "string \<Rightarrow> Geofence fetched \<Rightarrow> GeofenceService \<Rightarrow> (error + Geofence) \<times> GeofenceService" where
  "updateGeofence ident resp svc =
     (case resp of
        Rejected \<Rightarrow> (Inl (Error ''fetch failed''), svc)
      | Response ok body \<Rightarrow>
          if \<not> ok then (Inl (Error ''Failed to update geofence''), svc)
          else (case body of
                  None \<Rightarrow> (Inl (Error ''invalid json''), svc)
                | Some updatedGeofence \<Rightarrow>
                    (Inr updatedGeofence,
                     case findIndex (\<lambda>g. g_id g = ident) (activeGeofences svc) of
                       Some index \<Rightarrow>
                         if g_isActive updatedGeofence
                         then svc\<lparr> activeGeofences := (activeGeofences svc)[index := updatedGeofence] \<rparr>
                         else svc\<lparr> activeGeofences := splice1 index (activeGeofences svc) \<rparr>
                     | None \<Rightarrow>
                         if g_isActive updatedGeofence
                         then svc\<lparr> activeGeofences := activeGeofences svc @ [updatedGeofence] \<rparr>
                         else svc)))"

text \<open>
  \<open>deleteGeofence\<close> returns \<open>void\<close>: its result carries no event. \<open>userStatus.forEach\<close>
  visits every stored status and replaces its \<open>currentGeofences\<close>; nothing else of the
  status is written.
\<close>

definition purgeStatus :: "string \<Rightarrow> GeofenceStatus \<Rightarrow> GeofenceStatus" where
  "purgeStatus ident status =
     status\<lparr> currentGeofences := filter (\<lambda>g. geofenceId g \<noteq> ident) (currentGeofences status) \<rparr>"

definition deleteGeofence ::
  "string \<Rightarrow> unit fetched \<Rightarrow> GeofenceService \<Rightarrow> (error + unit) \<times> GeofenceService" where
  "deleteGeofence ident resp svc =
     (case resp of
        Rejected \<Rightarrow> (Inl (Error ''fetch failed''), svc)
      | Response ok body \<Rightarrow>
          if \<not> ok then (Inl (Error ''Failed to delete geofence''), svc)
          else (Inr (),
                svc\<lparr> activeGeofences := filter (\<lambda>g. g_id g \<noteq> ident) (activeGeofences svc),
                     userStatus := (\<lambda>userId. map_option (purgeStatus ident) (userStatus svc userId)) \<rparr>))"

section \<open>Sequences of operations on one service\<close>

datatype operation =
    CheckEntry runtime LocationData string
  | Delete string "unit fetched"
  | Update string "Geofence fetched"
  | Create "Geofence fetched"
  | Load "Geofence list fetched"

fun step :: "operation \<Rightarrow> GeofenceService \<Rightarrow> GeofenceService" where
  "step (CheckEntry rt location userId) svc = snd (checkGeofenceEntry rt location userId svc)"
| "step (Delete ident resp) svc = snd (deleteGeofence ident resp svc)"
| "step (Update ident resp) svc = snd (updateGeofence ident resp svc)"
| "step (Create resp) svc = snd (createGeofence resp svc)"
| "step (Load resp) svc = snd (loadGeofences resp svc)"

fun run :: "operation list \<Rightarrow> GeofenceService \<Rightarrow> GeofenceService" where
  "run [] svc = svc"
| "run (opn # ops) svc = run ops (step opn svc)"

text \<open>A run of fix evaluations, keeping what each call returned.\<close>

fun checkAll ::
  "(runtime \<times> LocationData \<times> string) list \<Rightarrow> GeofenceService
     \<Rightarrow> (error + GeofenceEvent list) list \<times> GeofenceService" where
  "checkAll [] svc = ([], svc)"
| "checkAll ((rt, location, userId) # fixes) svc =
     (let r = checkGeofenceEntry rt location userId svc;
          rs = checkAll fixes (snd r)
      in (fst r # fst rs, snd rs))"

text \<open>The events a call returned; none when it threw.\<close>

fun eventsOf :: "error + GeofenceEvent list \<Rightarrow> GeofenceEvent list" where
  "eventsOf (Inr events) = events"
| "eventsOf (Inl err) = []"

definition zoneIds :: "GeofenceStatus \<Rightarrow> string list" where
  "zoneIds status = map geofenceId (currentGeofences status)"

definition entriesFor :: "string \<Rightarrow> GeofenceService \<Rightarrow> string \<Rightarrow> GeofenceEntry list" where
  "entriesFor ident svc userId =
     (case userStatus svc userId of
        None \<Rightarrow> []
      | Some status \<Rightarrow> filter (\<lambda>g. geofenceId g = ident) (currentGeofences status))"

section \<open>The location API (src/app/api/location/route.ts)\<close>

text \<open>
  The request body is the parsed JSON, typed as the handler types it: every field of the
  interface may be absent (\<open>None\<close>), and a field that is present has the declared type.
  \<open>!v\<close> is true for an absent field, for the number zero and for the empty string.
  Of the runtime the handlers use the date parser, \<open>generateId\<close> and \<open>toFixed(4)\<close>.
  The model starts from the parsed body: a body that is not JSON makes \<open>request.json()\<close>
  reject, which the \<open>catch\<close> of each handler answers with status 500; on a typed body
  nothing in the handlers throws.
\<close>

record LocationUpdateRequest =
  r_latitude :: "real option"
  r_longitude :: "real option"
  r_accuracy :: "real option"
  r_timestamp :: "string option"
  r_source :: "LocationSource option"
  r_speed :: "real option"
  r_heading :: "real option"
  r_altitude :: "real option"

record route_runtime =
  dateValue :: "string \<Rightarrow> jsnum"
  generateId :: string
  toFixed4 :: "real \<Rightarrow> string"

definition falsyNum :: "real option \<Rightarrow> bool" where
  "falsyNum v = (case v of None \<Rightarrow> True | Some x \<Rightarrow> x = 0)"

definition falsyStr :: "string option \<Rightarrow> bool" where
  "falsyStr v = (case v of None \<Rightarrow> True | Some s \<Rightarrow> s = [])"

datatype 'a NextResponse = Json nat 'a

datatype PostBody =
    PostError string
  | PostSuccess string "GeofenceEvent list" string

definition reverseGeocode :: "route_runtime \<Rightarrow> real \<Rightarrow> real \<Rightarrow> string" where
  "reverseGeocode rr lat lon = toFixed4 rr lat @ '', '' @ toFixed4 rr lon"

text \<open>The demo stub of the route: it returns the empty array.\<close>

definition checkGeofenceEvents :: "LocationData \<Rightarrow> GeofenceEvent list" where
  "checkGeofenceEvents location = []"

text \<open>
  \<open>POST\<close> takes the body and the module's \<open>locationData\<close> array and returns the response
  and the array afterwards. Past the validation the three required fields are present, so
  \<open>the\<close> reads a field that is there. \<open>slice(-1000)\<close> keeps the last 1000 elements.
\<close>

definition POST ::
  "route_runtime \<Rightarrow> LocationUpdateRequest \<Rightarrow> LocationData list
     \<Rightarrow> PostBody NextResponse \<times> LocationData list" where
  "POST rr body locationData =
     (if falsyNum (r_latitude body) \<or> falsyNum (r_longitude body) \<or> falsyStr (r_timestamp body)
      then (Json 400 (PostError ''Latitude, longitude, and timestamp are required''), locationData)
      else
        let userId = ''1'';
            locationRecord =
              \<lparr> l_id = generateId rr,
                l_userId = userId,
                latitude = the (r_latitude body),
                longitude = the (r_longitude body),
                accuracy = (if falsyNum (r_accuracy body) then 10 else the (r_accuracy body)),
                timestamp = the (r_timestamp body),
                address = Some (reverseGeocode rr (the (r_latitude body)) (the (r_longitude body))),
                isManual = False,
                source = (case r_source body of None \<Rightarrow> GPS | Some src \<Rightarrow> src),
                speed = r_speed body,
                heading = r_heading body,
                altitude = r_altitude body \<rparr>;
            pushed = locationData @ [locationRecord];
            userLocations = filter (\<lambda>l. l_userId l = userId) pushed;
            kept = (if length userLocations > 1000
                    then filter (\<lambda>l. l_userId l \<noteq> userId) pushed @
                         drop (length userLocations - 1000) userLocations
                    else pushed);
            geofenceEvents = checkGeofenceEvents locationRecord
        in (Json 200 (PostSuccess (l_id locationRecord) geofenceEvents
                        ''Location updated successfully''),
            kept))"

subsection \<open>Location statistics: PATCH\<close>



text \<open>
  The arithmetic of the statistics is the runtime's: IEEE 754 doubles with the operators
  \<open>+ - * /\<close>, the \<open>Math\<close> functions and the comparisons. It is a parameter of the
  model, over any type \<open>'d\<close> of numbers, and nothing is assumed of it; the handler is
  written operation by operation, in the order in which JavaScript evaluates it.
  \<open>lit\<close> is the number of a literal or of a stored coordinate, \<open>nan\<close> the time value of
  an invalid date, \<open>mathPI\<close> is \<open>Math.PI\<close>.
\<close>

record 'd arith =
  lit :: "real \<Rightarrow> 'd"
  nan :: "'d"
  mathPI :: "'d"
  fadd :: "'d \<Rightarrow> 'd \<Rightarrow> 'd"
  fsub :: "'d \<Rightarrow> 'd \<Rightarrow> 'd"
  fmul :: "'d \<Rightarrow> 'd \<Rightarrow> 'd"
  fdiv :: "'d \<Rightarrow> 'd \<Rightarrow> 'd"
  fsqrt :: "'d \<Rightarrow> 'd"
  fsin :: "'d \<Rightarrow> 'd"
  fcos :: "'d \<Rightarrow> 'd"
  fatan2 :: "'d \<Rightarrow> 'd \<Rightarrow> 'd"
  fround :: "'d \<Rightarrow> 'd"
  fgt :: "'d \<Rightarrow> 'd \<Rightarrow> bool"
  flt :: "'d \<Rightarrow> 'd \<Rightarrow> bool"



text \<open>Comparison of two time values: false as soon as one of them is \<open>NaN\<close>.\<close>

fun js_ge :: "jsnum \<Rightarrow> jsnum \<Rightarrow> bool" where
  "js_ge (Num a) (Num b) = (a \<ge> b)"
| "js_ge _ _ = False"

fun js_le :: "jsnum \<Rightarrow> jsnum \<Rightarrow> bool" where
  "js_le (Num a) (Num b) = (a \<le> b)"
| "js_le _ _ = False"

text \<open>
  The milliseconds of a time value, as the key of the sort. Every location that passes
  the date filter has a numeric time value (lemma \<open>selectLocations_times\<close> below), so the
  \<open>NaN\<close> equation is never used on the list that is sorted. Time values are whole
  milliseconds, which doubles hold exactly; the comparator \<open>a - b\<close> has the sign of the
  exact difference.
\<close>

fun msOf :: "jsnum \<Rightarrow> real" where
  "msOf (Num a) = a"
| "msOf NaN = 0"

definition timeMs :: "route_runtime \<Rightarrow> LocationData \<Rightarrow> real" where
  "timeMs rr l = msOf (dateValue rr (timestamp l))"

text \<open>
  The two filters and the sort of \<open>PATCH\<close>. \<open>Array.prototype.sort\<close> is stable, and so is
  \<open>sort_key\<close>.
\<close>

definition selectLocations ::
  "route_runtime \<Rightarrow> string \<Rightarrow> string \<Rightarrow> string \<Rightarrow> LocationData list \<Rightarrow> LocationData list" where
  "selectLocations rr userId startText endText locationData =
     (let startDate = dateValue rr startText;
          endDate = dateValue rr endText
      in sort_key (timeMs rr)
           (filter (\<lambda>l. js_ge (dateValue rr (timestamp l)) startDate \<and>
                         js_le (dateValue rr (timestamp l)) endDate)
              (filter (\<lambda>l. l_userId l = userId) locationData)))"
























text \<open>
  The clock format \<open>HH:MM\<close>: two decimal digits for the hour, a colon, two for the minute.
  It is what \<open>toTimeString().substring(0, 5)\<close> yields and what a schedule is written in;
  the theorems use it to read the string comparison of the code as a comparison of times
  of day.
\<close>

definition digitChar :: "nat \<Rightarrow> char" where
  "digitChar n = char_of (48 + n)"

definition twoDigits :: "nat \<Rightarrow> string" where
  "twoDigits n = [digitChar (n div 10), digitChar (n mod 10)]"

definition hhmm :: "nat \<Rightarrow> nat \<Rightarrow> string" where
  "hhmm h m = twoDigits h @ '':'' @ twoDigits m"

definition storedEntries :: "GeofenceService \<Rightarrow> string \<Rightarrow> GeofenceEntry list" where
  "storedEntries svc userId =
     (case userStatus svc userId of None \<Rightarrow> [] | Some status \<Rightarrow> currentGeofences status)"

text \<open>
  What is expected of the server for the cache to hold each zone id once: a listing
  without repeated ids, a created zone with a new id, an updated zone under the id that
  was asked for.
\<close>

fun serverKeepsIds :: "operation \<Rightarrow> GeofenceService \<Rightarrow> bool" where
  "serverKeepsIds (Load (Response ok (Some geofences))) svc = distinct (map g_id geofences)"
| "serverKeepsIds (Create (Response ok (Some newGeofence))) svc =
     (g_id newGeofence \<notin> g_id ` set (activeGeofences svc))"
| "serverKeepsIds (Update ident (Response ok (Some updatedGeofence))) svc =
     (g_id updatedGeofence = ident)"
| "serverKeepsIds opn svc = True"

fun serverKeepsIdsAll :: "operation list \<Rightarrow> GeofenceService \<Rightarrow> bool" where
  "serverKeepsIdsAll [] svc = True"
| "serverKeepsIdsAll (opn # ops) svc =
     (serverKeepsIds opn svc \<and> serverKeepsIdsAll ops (step opn svc))"

text \<open>The invariant of the presence table: no status lists a zone id twice.\<close>

definition statusesDistinct :: "GeofenceService \<Rightarrow> bool" where
  "statusesDistinct svc = (\<forall>u s. userStatus svc u = Some s \<longrightarrow> distinct (zoneIds s))"

section \<open>A concrete scenario\<close>

text \<open>
  The square of the specification's polygon test, a user, three instants with their time
  values in milliseconds, and a clock reading on a Monday morning.
\<close>

definition squareZone :: Geofence where
  "squareZone =
     \<lparr> g_id = ''z1'', g_companyId = ''c1'', g_name = ''Square'', g_type = WORKPLACE,
       g_shape = polygon,
       g_coordinates = \<lparr> center = None,
         points = Some [\<lparr> c_latitude = 0, c_longitude = 0 \<rparr>,
                        \<lparr> c_latitude = 0, c_longitude = 10 \<rparr>,
                        \<lparr> c_latitude = 10, c_longitude = 10 \<rparr>,
                        \<lparr> c_latitude = 10, c_longitude = 0 \<rparr>] \<rparr>,
       g_radius = None, g_isActive = True, g_workingHours = None \<rparr>"

definition mondaySchedule :: DaySchedule where
  "mondaySchedule = \<lparr> ds_start = ''09:00'', ds_end = ''17:00'', ds_active = True \<rparr>"

definition officeHours :: GeofenceWorkingHours where
  "officeHours =
     \<lparr> enabled = True,
       schedule = [''mon'' \<mapsto> mondaySchedule,
                   ''sat'' \<mapsto> \<lparr> ds_start = ''09:00'', ds_end = ''17:00'', ds_active = False \<rparr>] \<rparr>"

definition officeZone :: Geofence where
  "officeZone =
     \<lparr> g_id = ''z2'', g_companyId = ''c1'', g_name = ''Office'', g_type = WORKPLACE,
       g_shape = circle,
       g_coordinates = \<lparr> center = Some \<lparr> c_latitude = 5, c_longitude = 5 \<rparr>, points = None \<rparr>,
       g_radius = Some 100, g_isActive = True,
       g_workingHours = Some officeHours \<rparr>"

definition fixAt :: "real \<Rightarrow> real \<Rightarrow> string \<Rightarrow> LocationData" where
  "fixAt lat lon ts =
     \<lparr> l_id = ''f'', l_userId = ''u1'', latitude = lat, longitude = lon, accuracy = 10,
       timestamp = ts, address = None, isManual = False, source = GPS,
       speed = None, heading = None, altitude = None \<rparr>"

definition epochParser :: "string \<Rightarrow> jsnum" where
  "epochParser s =
     (if s = ''1970-01-01T00:00:00.000Z'' then Num 0
      else if s = ''1970-01-01T00:01:00.000Z'' then Num 60000
      else if s = ''1970-01-01T00:02:05.000Z'' then Num 125000
      else if s = ''1970-01-01T01:00:00.000Z'' then Num 3600000
      else NaN)"

definition mondayMorning :: runtime where
  "mondayMorning =
     \<lparr> newDate = \<lparr> weekdayShort = ''Mon'', toTimeString = ''09:30:00 GMT+0000 (UTC)'' \<rparr>,
       getTime = epochParser,
       generateEventId = (\<lambda>k. ''ev'') \<rparr>"

definition oneZoneService :: GeofenceService where
  "oneZoneService = \<lparr> activeGeofences = [squareZone], userStatus = Map.empty \<rparr>"

definition t0 :: string where "t0 = ''1970-01-01T00:00:00.000Z''"
definition t60 :: string where "t60 = ''1970-01-01T00:01:00.000Z''"
definition t125 :: string where "t125 = ''1970-01-01T00:02:05.000Z''"

text \<open>The service after the user's first fix inside the square, and that user's entry.\<close>

definition enteredService :: GeofenceService where
  "enteredService = snd (checkGeofenceEntry mondayMorning (fixAt 5 5 t0) ''u1'' oneZoneService)"

definition entryAt0 :: GeofenceEntry where
  "entryAt0 = \<lparr> geofenceId = ''z1'', entryTime = t0, isAuthorized = True \<rparr>"

text \<open>
  The service after the user went in at \<open>t0\<close>, out at \<open>t60\<close> and in again at \<open>t125\<close>: the
  user is inside the square, and the last exit names the square too.
\<close>

definition reenteredService :: GeofenceService where
  "reenteredService =
     snd (checkAll [(mondayMorning, fixAt 5 5 t0, ''u1''),
                    (mondayMorning, fixAt 15 15 t60, ''u1''),
                    (mondayMorning, fixAt 5 5 t125, ''u1'')] oneZoneService)"









text \<open>A location update on the equator.\<close>

definition equatorFix :: LocationUpdateRequest where
  "equatorFix =
     \<lparr> r_latitude = Some 0, r_longitude = Some 10, r_accuracy = Some 10,
       r_timestamp = Some t0, r_source = Some GPS,
       r_speed = None, r_heading = None, r_altitude = None \<rparr>"

section \<open>Lemmas about the loop of checkGeofenceEntry\<close>

lemma loopBody_simps:
  "loopBody rt loc u g b evs cs =
     (if b \<and> \<not> wasInsideOf cs g then
        (evs @ [enterEvent rt loc u g (length evs)],
         cs\<lparr> currentGeofences := currentGeofences cs @
            [\<lparr> geofenceId = g_id g, entryTime = timestamp loc,
               isAuthorized = isAuthorizedAccess (newDate rt) g \<rparr>] \<rparr>)
      else if \<not> b \<and> wasInsideOf cs g then
        (evs @ [exitEvent rt loc u g (length evs)
                  (exitDuration rt loc (find (\<lambda>e. geofenceId e = g_id g) (currentGeofences cs)))],
         cs\<lparr> currentGeofences := filter (\<lambda>e. geofenceId e \<noteq> g_id g) (currentGeofences cs),
             lastGeofenceExit := Some \<lparr> x_geofenceId = g_id g, exitTime = timestamp loc,
               x_duration = exitDuration rt loc (find (\<lambda>e. geofenceId e = g_id g) (currentGeofences cs)) \<rparr> \<rparr>)
      else (evs, cs))"
  by (simp add: loopBody_def Let_def)



text \<open>One iteration adds at most one event, and the event is about the zone at hand.\<close>

lemma loopBody_events:
  "\<exists>new. fst (loopBody rt loc u g b evs cs) = evs @ new \<and>
     (\<forall>e\<in>set new. (eventType e = ENTER \<or> eventType e = EXIT) \<and> e_geofenceId e = g_id g)"
  by (simp add: loopBody_simps enterEvent_def exitEvent_def)




lemma checkLoop_events:
  "checkLoop rt loc u gs evs cs = (Inr out, cs') \<Longrightarrow>
   \<exists>new. out = evs @ new \<and>
     (\<forall>e\<in>set new. (eventType e = ENTER \<or> eventType e = EXIT) \<and> e_geofenceId e \<in> g_id ` set gs)"
proof (induction gs arbitrary: evs cs)
  case Nil
  then show ?case by simp
next
  case (Cons g gs)
  show ?case
  proof (cases "isLocationInsideGeofence loc g")
    case (Inl err)
    then show ?thesis using Cons.prems by simp
  next
    case (Inr b)
    obtain new1 where n1: "fst (loopBody rt loc u g b evs cs) = evs @ new1"
      and p1: "\<forall>e\<in>set new1. (eventType e = ENTER \<or> eventType e = EXIT) \<and> e_geofenceId e = g_id g"
      using loopBody_events by blast
    from Cons.prems Inr n1
    have "checkLoop rt loc u gs (evs @ new1) (snd (loopBody rt loc u g b evs cs)) = (Inr out, cs')"
      by simp
    from Cons.IH [OF this] obtain new2 where n2: "out = (evs @ new1) @ new2"
      and p2: "\<forall>e\<in>set new2. (eventType e = ENTER \<or> eventType e = EXIT) \<and> e_geofenceId e \<in> g_id ` set gs"
      by blast
    have "out = evs @ (new1 @ new2)" using n2 by simp
    moreover have "\<forall>e\<in>set (new1 @ new2).
        (eventType e = ENTER \<or> eventType e = EXIT) \<and> e_geofenceId e \<in> g_id ` set (g # gs)"
      using p1 p2 by auto
    ultimately show ?thesis by blast
  qed
qed



lemma checkGeofenceEntry_activeGeofences:
  "activeGeofences (snd (checkGeofenceEntry rt loc u svc)) = activeGeofences svc"
  by (auto simp: checkGeofenceEntry_def Let_def split: sum.splits option.splits)

lemma checkGeofenceEntry_Inr:
  "checkGeofenceEntry rt loc u svc = (Inr events, svc') \<Longrightarrow>
   \<exists>cs'. checkLoop rt loc u (activeGeofences svc) []
            (case userStatus svc u of Some s \<Rightarrow> s | None \<Rightarrow> freshStatus u) = (Inr events, cs')"
  by (auto simp: checkGeofenceEntry_def Let_def prod_eq_iff split: sum.splits)

lemma wasInsideOf_iff: "wasInsideOf cs g \<longleftrightarrow> g_id g \<in> set (zoneIds cs)"
  by (force simp: wasInsideOf_def zoneIds_def list_ex_iff)

lemma loopBody_distinct:
  "distinct (zoneIds cs) \<Longrightarrow> distinct (zoneIds (snd (loopBody rt loc u g b evs cs)))"
  by (auto simp: loopBody_simps wasInsideOf_iff zoneIds_def distinct_map_filter)

lemma checkLoop_distinct:
  "distinct (zoneIds cs) \<Longrightarrow> distinct (zoneIds (snd (checkLoop rt loc u gs evs cs)))"
proof (induction gs arbitrary: evs cs)
  case Nil
  then show ?case by simp
next
  case (Cons g gs)
  show ?case
  proof (cases "isLocationInsideGeofence loc g")
    case (Inl err)
    then show ?thesis using Cons.prems by simp
  next
    case (Inr b)
    then show ?thesis
      using Cons.IH [OF loopBody_distinct [OF Cons.prems]] by simp
  qed
qed

lemma freshStatus_distinct: "distinct (zoneIds (freshStatus u))"
  by (simp add: freshStatus_def zoneIds_def)

lemma checkGeofenceEntry_distinct:
  assumes "statusesDistinct svc"
  shows "statusesDistinct (snd (checkGeofenceEntry rt loc u svc))"
proof -
  let ?cs = "case userStatus svc u of Some s \<Rightarrow> s | None \<Rightarrow> freshStatus u"
  have d0: "distinct (zoneIds ?cs)"
    using assms by (auto simp: statusesDistinct_def freshStatus_distinct split: option.splits)
  have d1: "distinct (zoneIds (snd (checkLoop rt loc u (activeGeofences svc) [] ?cs)))"
    by (rule checkLoop_distinct [OF d0])
  show ?thesis
    using assms d1
    by (auto simp: checkGeofenceEntry_def Let_def statusesDistinct_def split: sum.splits option.splits)
qed

lemma purgeStatus_distinct: "distinct (zoneIds s) \<Longrightarrow> distinct (zoneIds (purgeStatus z s))"
  by (simp add: purgeStatus_def zoneIds_def distinct_map_filter)

lemma deleteGeofence_distinct:
  "statusesDistinct svc \<Longrightarrow> statusesDistinct (snd (deleteGeofence z resp svc))"
  by (auto simp: deleteGeofence_def statusesDistinct_def purgeStatus_distinct split: fetched.splits)

lemma updateGeofence_userStatus: "userStatus (snd (updateGeofence z resp svc)) = userStatus svc"
  by (auto simp: updateGeofence_def split: fetched.splits option.splits)

lemma createGeofence_userStatus: "userStatus (snd (createGeofence resp svc)) = userStatus svc"
  by (auto simp: createGeofence_def split: fetched.splits option.splits)

lemma loadGeofences_userStatus: "userStatus (snd (loadGeofences resp svc)) = userStatus svc"
  by (auto simp: loadGeofences_def split: fetched.splits option.splits bool.splits)

lemma step_distinct:
  assumes "statusesDistinct svc"
  shows "statusesDistinct (step opn svc)"
proof (cases opn)
  case (CheckEntry rt loc u)
  then show ?thesis using assms by (simp add: checkGeofenceEntry_distinct)
next
  case (Delete z resp)
  then show ?thesis using assms by (simp add: deleteGeofence_distinct)
next
  case (Update z resp)
  then show ?thesis using assms by (simp add: statusesDistinct_def updateGeofence_userStatus)
next
  case (Create resp)
  then show ?thesis using assms by (simp add: statusesDistinct_def createGeofence_userStatus)
next
  case (Load resp)
  then show ?thesis using assms by (simp add: statusesDistinct_def loadGeofences_userStatus)
qed

lemma run_distinct: "statusesDistinct svc \<Longrightarrow> statusesDistinct (run ops svc)"
  by (induction ops arbitrary: svc) (simp_all add: step_distinct)

lemma find_snoc:
  "find P (xs @ [x]) = (case find P xs of Some y \<Rightarrow> Some y | None \<Rightarrow> if P x then Some x else None)"
  by (induction xs) simp_all

lemma single_zone_step:
  assumes "activeGeofences svc = [g]" and "isLocationInsideGeofence loc g = Inr b"
  shows "checkGeofenceEntry rt loc u svc =
     (Inr (fst (loopBody rt loc u g b []
                  (case userStatus svc u of Some s \<Rightarrow> s | None \<Rightarrow> freshStatus u))),
      svc\<lparr> userStatus := (userStatus svc)(u \<mapsto>
             snd (loopBody rt loc u g b []
                  (case userStatus svc u of Some s \<Rightarrow> s | None \<Rightarrow> freshStatus u))) \<rparr>)"
  using assms by (simp add: checkGeofenceEntry_def Let_def)

lemma wasInsideOf_stored:
  "wasInsideOf (case userStatus svc u of Some s \<Rightarrow> s | None \<Rightarrow> freshStatus u) g \<longleftrightarrow>
   g_id g \<in> geofenceId ` set (storedEntries svc u)"
  by (force simp: wasInsideOf_def storedEntries_def freshStatus_def list_ex_iff split: option.splits)

lemma currentGeofences_stored:
  "currentGeofences (case userStatus svc u of Some s \<Rightarrow> s | None \<Rightarrow> freshStatus u) =
   storedEntries svc u"
  by (simp add: storedEntries_def freshStatus_def split: option.splits)

lemma single_zone_events:
  assumes "activeGeofences svc = [g]" and "isLocationInsideGeofence loc g = Inr b"
  shows "fst (checkGeofenceEntry rt loc u svc) =
     Inr (if b \<and> g_id g \<notin> geofenceId ` set (storedEntries svc u)
          then [enterEvent rt loc u g 0]
          else if \<not> b \<and> g_id g \<in> geofenceId ` set (storedEntries svc u)
          then [exitEvent rt loc u g 0
                  (exitDuration rt loc
                     (find (\<lambda>e. geofenceId e = g_id g) (storedEntries svc u)))]
          else [])"
  by (simp add: single_zone_step [OF assms] loopBody_simps wasInsideOf_stored
        currentGeofences_stored)

lemma single_zone_stored:
  assumes "activeGeofences svc = [g]" and "isLocationInsideGeofence loc g = Inr b"
  shows "storedEntries (snd (checkGeofenceEntry rt loc u svc)) u =
     (if b \<and> g_id g \<notin> geofenceId ` set (storedEntries svc u)
      then storedEntries svc u @
             [\<lparr> geofenceId = g_id g, entryTime = timestamp loc,
                isAuthorized = isAuthorizedAccess (newDate rt) g \<rparr>]
      else if \<not> b \<and> g_id g \<in> geofenceId ` set (storedEntries svc u)
      then filter (\<lambda>e. geofenceId e \<noteq> g_id g) (storedEntries svc u)
      else storedEntries svc u)"
  by (simp add: single_zone_step [OF assms] loopBody_simps wasInsideOf_stored
        currentGeofences_stored [symmetric] storedEntries_def)




section \<open>The scenario evaluated\<close>

lemma upt4: "[0..<4] = [0, Suc 0, 2, 3]"
  by (simp add: upt_rec numeral_eq_Suc)

lemma square_contains_5_5: "isLocationInsideGeofence (fixAt 5 5 ts) squareZone = Inr True"
  by (simp add: isLocationInsideGeofence_def squareZone_def fixAt_def isPointInPolygon_def
      rayStep_def Let_def upt4)

lemma square_excludes_15_15: "isLocationInsideGeofence (fixAt 15 15 ts) squareZone = Inr False"
  by (simp add: isLocationInsideGeofence_def squareZone_def fixAt_def isPointInPolygon_def
      rayStep_def Let_def upt4)

lemma oneZone_active: "activeGeofences oneZoneService = [squareZone]"
  by (simp add: oneZoneService_def)

lemma oneZone_stored: "storedEntries oneZoneService u = []"
  by (simp add: oneZoneService_def storedEntries_def)

section \<open>Entry and exit pairing\<close>

text \<open>
  Claim C1. With a single active zone, one call of \<open>checkGeofenceEntry\<close> emits an ENTER
  exactly when the fix is inside and the subject has no entry for the zone, an EXIT exactly
  when the fix is outside and the subject has an entry, and nothing otherwise. Hence for a
  subject that is not present, the fixes inside, inside, outside give one ENTER on the
  first fix, nothing on the second, and one EXIT on the third, whose duration is counted
  from the entry recorded by the first fix.
\<close>

theorem presence_enter_exit_pairing:
  assumes single: "activeGeofences svc = [g]"
  shows "(isLocationInsideGeofence loc g = Inr b \<longrightarrow>
            fst (checkGeofenceEntry rt loc u svc) =
              Inr (if b \<and> g_id g \<notin> geofenceId ` set (storedEntries svc u)
                   then [enterEvent rt loc u g 0]
                   else if \<not> b \<and> g_id g \<in> geofenceId ` set (storedEntries svc u)
                   then [exitEvent rt loc u g 0
                           (exitDuration rt loc
                              (find (\<lambda>e. geofenceId e = g_id g) (storedEntries svc u)))]
                   else []))
       \<and> (g_id g \<notin> geofenceId ` set (storedEntries svc u) \<and>
          isLocationInsideGeofence fix1 g = Inr True \<and>
          isLocationInsideGeofence fix2 g = Inr True \<and>
          isLocationInsideGeofence fix3 g = Inr False \<longrightarrow>
            fst (checkAll [(rt1, fix1, u), (rt2, fix2, u), (rt3, fix3, u)] svc) =
              [Inr [enterEvent rt1 fix1 u g 0],
               Inr [],
               Inr [exitEvent rt3 fix3 u g 0
                      (exitDuration rt3 fix3
                         (Some \<lparr> geofenceId = g_id g, entryTime = timestamp fix1,
                                 isAuthorized = isAuthorizedAccess (newDate rt1) g \<rparr>))]])"
proof (intro conjI impI)
  assume "isLocationInsideGeofence loc g = Inr b"
  from single_zone_events [OF single this]
  show "fst (checkGeofenceEntry rt loc u svc) =
              Inr (if b \<and> g_id g \<notin> geofenceId ` set (storedEntries svc u)
                   then [enterEvent rt loc u g 0]
                   else if \<not> b \<and> g_id g \<in> geofenceId ` set (storedEntries svc u)
                   then [exitEvent rt loc u g 0
                           (exitDuration rt loc
                              (find (\<lambda>e. geofenceId e = g_id g) (storedEntries svc u)))]
                   else [])" .
next
  assume h: "g_id g \<notin> geofenceId ` set (storedEntries svc u) \<and>
          isLocationInsideGeofence fix1 g = Inr True \<and>
          isLocationInsideGeofence fix2 g = Inr True \<and>
          isLocationInsideGeofence fix3 g = Inr False"
  let ?entry = "\<lparr> geofenceId = g_id g, entryTime = timestamp fix1,
                   isAuthorized = isAuthorizedAccess (newDate rt1) g \<rparr>"
  let ?svc1 = "snd (checkGeofenceEntry rt1 fix1 u svc)"
  let ?svc2 = "snd (checkGeofenceEntry rt2 fix2 u ?svc1)"
  have a1: "activeGeofences ?svc1 = [g]" and a2: "activeGeofences ?svc2 = [g]"
    using single by (simp_all add: checkGeofenceEntry_activeGeofences)
  have e1: "fst (checkGeofenceEntry rt1 fix1 u svc) = Inr [enterEvent rt1 fix1 u g 0]"
    using single_zone_events [OF single, of fix1 True rt1 u] h by simp
  have s1: "storedEntries ?svc1 u = storedEntries svc u @ [?entry]"
    using single_zone_stored [OF single, of fix1 True rt1 u] h by simp
  have in1: "g_id g \<in> geofenceId ` set (storedEntries ?svc1 u)"
    by (simp add: s1)
  have e2: "fst (checkGeofenceEntry rt2 fix2 u ?svc1) = Inr []"
    using single_zone_events [OF a1, of fix2 True rt2 u] h in1 by simp
  have s2: "storedEntries ?svc2 u = storedEntries svc u @ [?entry]"
    using single_zone_stored [OF a1, of fix2 True rt2 u] h in1 s1 by simp
  have in2: "g_id g \<in> geofenceId ` set (storedEntries ?svc2 u)"
    by (simp add: s2)
  have nf: "find (\<lambda>e. geofenceId e = g_id g) (storedEntries svc u) = None"
    using h by (force simp: find_None_iff)
  have f2: "find (\<lambda>e. geofenceId e = g_id g) (storedEntries ?svc2 u) = Some ?entry"
    using nf by (simp add: s2 find_snoc)
  have e3: "fst (checkGeofenceEntry rt3 fix3 u ?svc2) =
      Inr [exitEvent rt3 fix3 u g 0 (exitDuration rt3 fix3 (Some ?entry))]"
    using single_zone_events [OF a2, of fix3 False rt3 u] h in2 f2 by simp
  show "fst (checkAll [(rt1, fix1, u), (rt2, fix2, u), (rt3, fix3, u)] svc) =
              [Inr [enterEvent rt1 fix1 u g 0],
               Inr [],
               Inr [exitEvent rt3 fix3 u g 0 (exitDuration rt3 fix3 (Some ?entry))]]"
    by (simp add: Let_def e1 e2 e3)
qed

theorem presence_enter_exit_pairing_witness:
  "activeGeofences oneZoneService = [squareZone] \<and>
   g_id squareZone \<notin> geofenceId ` set (storedEntries oneZoneService ''u1'') \<and>
   isLocationInsideGeofence (fixAt 5 5 t0) squareZone = Inr True \<and>
   isLocationInsideGeofence (fixAt 5 5 t60) squareZone = Inr True \<and>
   isLocationInsideGeofence (fixAt 15 15 t125) squareZone = Inr False \<and>
   map (\<lambda>r. map eventType (eventsOf r))
     (fst (checkAll [(mondayMorning, fixAt 5 5 t0, ''u1''),
                     (mondayMorning, fixAt 5 5 t60, ''u1''),
                     (mondayMorning, fixAt 15 15 t125, ''u1'')] oneZoneService)) =
     [[ENTER], [], [EXIT]]"
proof -
  have h: "g_id squareZone \<notin> geofenceId ` set (storedEntries oneZoneService ''u1'') \<and>
      isLocationInsideGeofence (fixAt 5 5 t0) squareZone = Inr True \<and>
      isLocationInsideGeofence (fixAt 5 5 t60) squareZone = Inr True \<and>
      isLocationInsideGeofence (fixAt 15 15 t125) squareZone = Inr False"
    by (simp add: oneZone_stored square_contains_5_5 square_excludes_15_15)
  from presence_enter_exit_pairing [OF oneZone_active,
      of "fixAt 5 5 t0" True mondayMorning "''u1''" "fixAt 5 5 t0" "fixAt 5 5 t60"
         "fixAt 15 15 t125" mondayMorning mondayMorning mondayMorning] h
  have "fst (checkAll [(mondayMorning, fixAt 5 5 t0, ''u1''),
                     (mondayMorning, fixAt 5 5 t60, ''u1''),
                     (mondayMorning, fixAt 15 15 t125, ''u1'')] oneZoneService) =
      [Inr [enterEvent mondayMorning (fixAt 5 5 t0) ''u1'' squareZone 0],
       Inr [],
       Inr [exitEvent mondayMorning (fixAt 15 15 t125) ''u1'' squareZone 0
              (exitDuration mondayMorning (fixAt 15 15 t125)
                 (Some \<lparr> geofenceId = g_id squareZone, entryTime = timestamp (fixAt 5 5 t0),
                         isAuthorized = isAuthorizedAccess (newDate mondayMorning) squareZone \<rparr>))]]"
    by blast
  then show ?thesis
    using h by (simp add: oneZone_active enterEvent_def exitEvent_def)
qed

section \<open>Duplicate-free presence lists\<close>

text \<open>
  Claim C3. Starting from an empty presence table, after any sequence of
  \<open>checkGeofenceEntry\<close> and \<open>deleteGeofence\<close> calls (and of the other registry calls, which
  do not touch the table), the \<open>currentGeofences\<close> list of every subject names each zone
  id at most once. This holds also for a status left behind by a call that threw.
\<close>

theorem current_geofences_distinct: 
  assumes "userStatus svc0 = Map.empty" and "userStatus (run ops svc0) userId = Some status"
  shows "distinct (map geofenceId (currentGeofences status))"
proof -
  have "statusesDistinct svc0" using assms(1) by (simp add: statusesDistinct_def)
  then have "statusesDistinct (run ops svc0)" by (rule run_distinct)
  then show ?thesis using assms(2) by (simp add: statusesDistinct_def zoneIds_def)
qed

section \<open>No DWELL event\<close>

text \<open>
  Claim C9. Every event that \<open>checkGeofenceEntry\<close> returns has type ENTER or EXIT; the
  containment diff never emits DWELL.
\<close>

theorem containment_diff_never_dwell:
  assumes run: "checkGeofenceEntry rt loc u svc = (Inr events, svc')"
    and e: "e \<in> set events"
  shows "eventType e = ENTER \<or> eventType e = EXIT"
proof -
  from checkGeofenceEntry_Inr [OF run] obtain cs' where
    "checkLoop rt loc u (activeGeofences svc) []
       (case userStatus svc u of Some s \<Rightarrow> s | None \<Rightarrow> freshStatus u) = (Inr events, cs')"
    by blast
  from checkLoop_events [OF this] e show ?thesis by auto
qed

section \<open>Exit duration\<close>

lemma squareZone_id: "g_id squareZone = ''z1''"
  by (simp add: squareZone_def)

lemma squareZone_authorized: "isAuthorizedAccess now squareZone"
  by (simp add: isAuthorizedAccess_def isWithinWorkingHours_def squareZone_def)

lemma enteredService_active: "activeGeofences enteredService = [squareZone]"
  by (simp add: enteredService_def checkGeofenceEntry_activeGeofences oneZone_active)

lemma fixAt_timestamp: "timestamp (fixAt lat lon ts) = ts"
  by (simp add: fixAt_def)

lemma enteredService_stored: "storedEntries enteredService ''u1'' = [entryAt0]"
proof -
  have "storedEntries enteredService ''u1'' =
     (if True \<and> g_id squareZone \<notin> geofenceId ` set (storedEntries oneZoneService ''u1'')
      then storedEntries oneZoneService ''u1'' @
             [\<lparr> geofenceId = g_id squareZone, entryTime = timestamp (fixAt 5 5 t0),
                isAuthorized = isAuthorizedAccess (newDate mondayMorning) squareZone \<rparr>]
      else if \<not> True \<and> g_id squareZone \<in> geofenceId ` set (storedEntries oneZoneService ''u1'')
      then filter (\<lambda>e. geofenceId e \<noteq> g_id squareZone) (storedEntries oneZoneService ''u1'')
      else storedEntries oneZoneService ''u1'')"
    unfolding enteredService_def
    by (rule single_zone_stored [OF oneZone_active square_contains_5_5])
  then show ?thesis
    by (simp add: oneZone_stored entryAt0_def squareZone_id squareZone_authorized fixAt_timestamp)
qed

lemma oneZone_status: "userStatus oneZoneService u = None"
  by (simp add: oneZoneService_def)

lemma enteredService_eq:
  "enteredService =
     oneZoneService \<lparr> userStatus := [''u1'' \<mapsto>
       \<lparr> s_userId = ''u1'', currentGeofences = [entryAt0], lastGeofenceExit = None \<rparr>] \<rparr>"
proof -
  have "loopBody mondayMorning (fixAt 5 5 t0) ''u1'' squareZone True [] (freshStatus ''u1'') =
      ([enterEvent mondayMorning (fixAt 5 5 t0) ''u1'' squareZone 0],
       \<lparr> s_userId = ''u1'', currentGeofences = [entryAt0], lastGeofenceExit = None \<rparr>)"
    by (simp add: loopBody_simps wasInsideOf_def freshStatus_def entryAt0_def squareZone_id
          squareZone_authorized fixAt_timestamp)
  then show ?thesis
    unfolding enteredService_def single_zone_step [OF oneZone_active square_contains_5_5]
    by (simp add: oneZone_status) (simp add: oneZoneService_def)
qed

lemma enteredService_status:
  "userStatus enteredService ''u1'' =
     Some \<lparr> s_userId = ''u1'', currentGeofences = [entryAt0], lastGeofenceExit = None \<rparr>"
  by (simp add: enteredService_eq)





section \<open>Witnesses for the presence list and for the event types\<close>

theorem current_geofences_distinct_witness:
  "userStatus oneZoneService = Map.empty \<and>
   userStatus (run [CheckEntry mondayMorning (fixAt 5 5 t0) ''u1'',
                    Delete ''z2'' (Response True None)] oneZoneService) ''u1'' =
     Some \<lparr> s_userId = ''u1'', currentGeofences = [entryAt0], lastGeofenceExit = None \<rparr> \<and>
   distinct (map geofenceId
     (currentGeofences \<lparr> s_userId = ''u1'', currentGeofences = [entryAt0], lastGeofenceExit = None \<rparr>))"
proof -
  have e: "userStatus oneZoneService = Map.empty" by (simp add: oneZoneService_def)
  have r: "userStatus (run [CheckEntry mondayMorning (fixAt 5 5 t0) ''u1'',
                    Delete ''z2'' (Response True None)] oneZoneService) ''u1'' =
     Some \<lparr> s_userId = ''u1'', currentGeofences = [entryAt0], lastGeofenceExit = None \<rparr>"
    using enteredService_status
    by (simp add: enteredService_def [symmetric] deleteGeofence_def purgeStatus_def entryAt0_def)
  from current_geofences_distinct [OF e r] e r show ?thesis by blast
qed

theorem containment_diff_never_dwell_witness:
  "fst (checkGeofenceEntry mondayMorning (fixAt 5 5 t0) ''u1'' oneZoneService) =
     Inr [enterEvent mondayMorning (fixAt 5 5 t0) ''u1'' squareZone 0] \<and>
   (eventType (enterEvent mondayMorning (fixAt 5 5 t0) ''u1'' squareZone 0) = ENTER \<or>
    eventType (enterEvent mondayMorning (fixAt 5 5 t0) ''u1'' squareZone 0) = EXIT)"
proof -
  let ?ev = "enterEvent mondayMorning (fixAt 5 5 t0) ''u1'' squareZone 0"
  have ev: "fst (checkGeofenceEntry mondayMorning (fixAt 5 5 t0) ''u1'' oneZoneService) = Inr [?ev]"
    by (simp add: single_zone_events [OF oneZone_active square_contains_5_5] oneZone_stored)
  then have run: "checkGeofenceEntry mondayMorning (fixAt 5 5 t0) ''u1'' oneZoneService =
      (Inr [?ev], snd (checkGeofenceEntry mondayMorning (fixAt 5 5 t0) ''u1'' oneZoneService))"
    by (simp add: prod_eq_iff)
  from containment_diff_never_dwell [OF run, of ?ev] ev show ?thesis by simp
qed

section \<open>The authorization window\<close>

lemma of_char_digit: "n < 10 \<Longrightarrow> of_char (digitChar n) = 48 + n"
  by (simp add: digitChar_def)

lemma digit_less: "a < 10 \<Longrightarrow> b < 10 \<Longrightarrow> digitChar a < digitChar b \<longleftrightarrow> a < b"
  by (simp add: less_char_def of_char_digit)

lemma digit_eq: "a < 10 \<Longrightarrow> b < 10 \<Longrightarrow> digitChar a = digitChar b \<longleftrightarrow> a = b"
proof
  assume "a < 10" "b < 10" "digitChar a = digitChar b"
  then have "(of_char (digitChar a) :: nat) = of_char (digitChar b)" by simp
  with \<open>a < 10\<close> \<open>b < 10\<close> show "a = b" by (simp add: of_char_digit)
qed simp

lemma two_digit_le:
  fixes a b a' b' :: nat
  assumes "b < 10" "b' < 10"
  shows "(a < a' \<or> a = a' \<and> b \<le> b') \<longleftrightarrow> 10 * a + b \<le> 10 * a' + b'"
  using assms by arith
lemma two_digit_less:
  fixes a b a' b' :: nat
  assumes "b < 10" "b' < 10"
  shows "(a < a' \<or> a = a' \<and> b < b') \<longleftrightarrow> 10 * a + b < 10 * a' + b'"
proof -
  have "10 * a + b < 10 * a' + b' \<longleftrightarrow> \<not> (10 * a' + b' \<le> 10 * a + b)" by auto
  also have "\<dots> \<longleftrightarrow> \<not> (a' < a \<or> a' = a \<and> b' \<le> b)"
    by (simp only: two_digit_le [OF assms(2) assms(1)])
  also have "\<dots> \<longleftrightarrow> (a < a' \<or> a = a' \<and> b < b')" by auto
  finally show ?thesis by simp
qed
lemma two_digit_eq:
  fixes a b a' b' :: nat
  assumes "b < 10" "b' < 10"
  shows "(a = a' \<and> b = b') \<longleftrightarrow> 10 * a + b = 10 * a' + b'"
proof -
  have "10 * a + b = 10 * a' + b' \<longleftrightarrow>
      10 * a + b \<le> 10 * a' + b' \<and> 10 * a' + b' \<le> 10 * a + b" by auto
  also have "\<dots> \<longleftrightarrow> (a < a' \<or> a = a' \<and> b \<le> b') \<and> (a' < a \<or> a' = a \<and> b' \<le> b)"
    by (simp only: two_digit_le [OF assms(2) assms(1)] two_digit_le [OF assms(1) assms(2)])
  also have "\<dots> \<longleftrightarrow> (a = a' \<and> b = b')" by auto
  finally show ?thesis by simp
qed

lemma hours_minutes_le:
  fixes H M H' M' :: nat
  assumes "M < 60" "M' < 60"
  shows "(H < H' \<or> H = H' \<and> M \<le> M') \<longleftrightarrow> 60 * H + M \<le> 60 * H' + M'"
  using assms by arith

lemma hhmm_le_minutes:
  assumes "h1 < 100" "m1 < 60" "h2 < 100" "m2 < 60"
  shows "hhmm h1 m1 \<le> hhmm h2 m2 \<longleftrightarrow> 60 * h1 + m1 \<le> 60 * h2 + m2"
proof -
  have d: "h1 div 10 < 10" "h1 mod 10 < 10" "h2 div 10 < 10" "h2 mod 10 < 10"
     "m1 div 10 < 10" "m1 mod 10 < 10" "m2 div 10 < 10" "m2 mod 10 < 10"
    using assms by simp_all
  have "hhmm h1 m1 \<le> hhmm h2 m2 \<longleftrightarrow>
      ((h1 div 10 < h2 div 10 \<or> h1 div 10 = h2 div 10 \<and> h1 mod 10 < h2 mod 10) \<or>
       (h1 div 10 = h2 div 10 \<and> h1 mod 10 = h2 mod 10) \<and>
       (m1 div 10 < m2 div 10 \<or> m1 div 10 = m2 div 10 \<and> m1 mod 10 \<le> m2 mod 10))"
    unfolding hhmm_def twoDigits_def
    by (simp add: digit_less digit_eq d le_less) blast
  also have "\<dots> \<longleftrightarrow>
      (10 * (h1 div 10) + h1 mod 10 < 10 * (h2 div 10) + h2 mod 10 \<or>
       10 * (h1 div 10) + h1 mod 10 = 10 * (h2 div 10) + h2 mod 10 \<and>
       10 * (m1 div 10) + m1 mod 10 \<le> 10 * (m2 div 10) + m2 mod 10)"
    by (simp only: two_digit_less [OF d(2) d(4)] two_digit_eq [OF d(2) d(4)]
          two_digit_le [OF d(6) d(8)])
  also have "\<dots> \<longleftrightarrow> (h1 < h2 \<or> h1 = h2 \<and> m1 \<le> m2)"
    by simp
  also have "\<dots> \<longleftrightarrow> 60 * h1 + m1 \<le> 60 * h2 + m2"
    by (rule hours_minutes_le [OF assms(2) assms(4)])
  finally show ?thesis .
qed

lemma hhmm_examples:
  "hhmm 9 0 = ''09:00''" "hhmm 9 30 = ''09:30''" "hhmm 17 0 = ''17:00''"
  by code_simp+

lemma monday_lower: "toLowerCase (weekdayShort (newDate mondayMorning)) = ''mon''"
  unfolding mondayMorning_def by simp code_simp

lemma monday_time: "take 5 (toTimeString (newDate mondayMorning)) = ''09:30''"
  by (simp add: mondayMorning_def)

text \<open>
  Claim C4. \<open>isAuthorizedAccess\<close> is \<open>isWithinWorkingHours\<close>. It is true for a zone without
  working hours or with working hours that are not enabled. Otherwise it is true exactly
  when the schedule has an entry for the current day of the week that is active and whose
  start and end enclose the current \<open>HH:MM\<close> string, both ends included. For strings in
  the \<open>HH:MM\<close> format the string comparison is the comparison of the times of day.
\<close>

theorem authorization_window:
  "(isAuthorizedAccess now g \<longleftrightarrow> isWithinWorkingHours now g) \<and>
   (g_workingHours g = None \<longrightarrow> isAuthorizedAccess now g) \<and>
   (g_workingHours g = Some wh \<and> \<not> enabled wh \<longrightarrow> isAuthorizedAccess now g) \<and>
   (g_workingHours g = Some wh \<and> enabled wh \<longrightarrow>
      (isAuthorizedAccess now g \<longleftrightarrow>
         (\<exists>day. schedule wh (toLowerCase (weekdayShort now)) = Some day \<and> ds_active day \<and>
            ds_start day \<le> take 5 (toTimeString now) \<and>
            take 5 (toTimeString now) \<le> ds_end day))) \<and>
   (g_workingHours g = Some wh \<and> enabled wh \<and>
    schedule wh (toLowerCase (weekdayShort now)) = Some day \<and>
    ds_start day = hhmm sh sm \<and> ds_end day = hhmm eh em \<and>
    take 5 (toTimeString now) = hhmm h m \<and>
    sh < 24 \<and> sm < 60 \<and> eh < 24 \<and> em < 60 \<and> h < 24 \<and> m < 60 \<longrightarrow>
      (isAuthorizedAccess now g \<longleftrightarrow>
         ds_active day \<and> 60 * sh + sm \<le> 60 * h + m \<and> 60 * h + m \<le> 60 * eh + em))"
proof (intro conjI impI)
  show "isAuthorizedAccess now g \<longleftrightarrow> isWithinWorkingHours now g"
    by (simp add: isAuthorizedAccess_def)
next
  assume "g_workingHours g = None"
  then show "isAuthorizedAccess now g"
    by (simp add: isAuthorizedAccess_def isWithinWorkingHours_def)
next
  assume "g_workingHours g = Some wh \<and> \<not> enabled wh"
  then show "isAuthorizedAccess now g"
    by (simp add: isAuthorizedAccess_def isWithinWorkingHours_def)
next
  assume "g_workingHours g = Some wh \<and> enabled wh"
  then show "isAuthorizedAccess now g \<longleftrightarrow>
         (\<exists>day. schedule wh (toLowerCase (weekdayShort now)) = Some day \<and> ds_active day \<and>
            ds_start day \<le> take 5 (toTimeString now) \<and>
            take 5 (toTimeString now) \<le> ds_end day)"
    by (auto simp: isAuthorizedAccess_def isWithinWorkingHours_def Let_def split: option.splits)
next
  assume a: "g_workingHours g = Some wh \<and> enabled wh \<and>
    schedule wh (toLowerCase (weekdayShort now)) = Some day \<and>
    ds_start day = hhmm sh sm \<and> ds_end day = hhmm eh em \<and>
    take 5 (toTimeString now) = hhmm h m \<and>
    sh < 24 \<and> sm < 60 \<and> eh < 24 \<and> em < 60 \<and> h < 24 \<and> m < 60"
  then have s: "hhmm sh sm \<le> hhmm h m \<longleftrightarrow> 60 * sh + sm \<le> 60 * h + m"
    by (intro hhmm_le_minutes) simp_all
  from a have e: "hhmm h m \<le> hhmm eh em \<longleftrightarrow> 60 * h + m \<le> 60 * eh + em"
    by (intro hhmm_le_minutes) simp_all
  from a show "isAuthorizedAccess now g \<longleftrightarrow>
         ds_active day \<and> 60 * sh + sm \<le> 60 * h + m \<and> 60 * h + m \<le> 60 * eh + em"
    by (simp add: isAuthorizedAccess_def isWithinWorkingHours_def Let_def s e)
qed

theorem authorization_window_witness:
  "g_workingHours officeZone = Some officeHours \<and> enabled officeHours \<and>
   schedule officeHours (toLowerCase (weekdayShort (newDate mondayMorning))) = Some mondaySchedule \<and>
   ds_start mondaySchedule = hhmm 9 0 \<and> ds_end mondaySchedule = hhmm 17 0 \<and>
   take 5 (toTimeString (newDate mondayMorning)) = hhmm 9 30 \<and>
   isAuthorizedAccess (newDate mondayMorning) officeZone"
proof -
  have h: "g_workingHours officeZone = Some officeHours \<and> enabled officeHours \<and>
      schedule officeHours (toLowerCase (weekdayShort (newDate mondayMorning))) = Some mondaySchedule \<and>
      ds_start mondaySchedule = hhmm 9 0 \<and> ds_end mondaySchedule = hhmm 17 0 \<and>
      take 5 (toTimeString (newDate mondayMorning)) = hhmm 9 30 \<and>
      (9::nat) < 24 \<and> (0::nat) < 60 \<and> (17::nat) < 24 \<and> (0::nat) < 60 \<and> (9::nat) < 24 \<and> (30::nat) < 60"
    by (simp add: officeZone_def officeHours_def mondaySchedule_def monday_lower monday_time
          hhmm_examples)
  have "g_workingHours officeZone = Some officeHours \<and> enabled officeHours \<and>
      schedule officeHours (toLowerCase (weekdayShort (newDate mondayMorning))) = Some mondaySchedule \<and>
      ds_start mondaySchedule = hhmm 9 0 \<and> ds_end mondaySchedule = hhmm 17 0 \<and>
      take 5 (toTimeString (newDate mondayMorning)) = hhmm 9 30 \<and>
      (9::nat) < 24 \<and> (0::nat) < 60 \<and> (17::nat) < 24 \<and> (0::nat) < 60 \<and> (9::nat) < 24 \<and> (30::nat) < 60 \<longrightarrow>
      (isAuthorizedAccess (newDate mondayMorning) officeZone \<longleftrightarrow>
         ds_active mondaySchedule \<and> 60 * 9 + 0 \<le> 60 * 9 + (30::nat) \<and> 60 * 9 + (30::nat) \<le> 60 * 17 + 0)"
    using authorization_window [of "newDate mondayMorning" officeZone officeHours mondaySchedule
        9 0 17 0 9 30] by blast
  with h have "isAuthorizedAccess (newDate mondayMorning) officeZone \<longleftrightarrow>
         ds_active mondaySchedule \<and> 60 * 9 + 0 \<le> 60 * 9 + (30::nat) \<and> 60 * 9 + (30::nat) \<le> 60 * 17 + 0"
    by blast
  then have "isAuthorizedAccess (newDate mondayMorning) officeZone"
    by (simp add: mondaySchedule_def)
  with h show ?thesis by blast
qed

section \<open>Deleting a zone\<close>

lemma entriesFor_stored:
  "entriesFor z svc u = filter (\<lambda>e. geofenceId e = z) (storedEntries svc u)"
  by (simp add: entriesFor_def storedEntries_def split: option.splits)

lemma deleteGeofence_stored:
  "storedEntries (snd (deleteGeofence z (Response True body) svc)) u =
   filter (\<lambda>e. geofenceId e \<noteq> z) (storedEntries svc u)"
  by (simp add: deleteGeofence_def storedEntries_def purgeStatus_def split: option.splits)

lemma exitedService_eq:
  "snd (checkGeofenceEntry mondayMorning (fixAt 15 15 t60) ''u1'' enteredService) =
     oneZoneService \<lparr> userStatus := [''u1'' \<mapsto>
       \<lparr> s_userId = ''u1'', currentGeofences = [],
         lastGeofenceExit = Some \<lparr> x_geofenceId = ''z1'', exitTime = t60, x_duration = Num 1 \<rparr> \<rparr>] \<rparr>"
proof -
  have t: "getTime mondayMorning t60 = Num 60000" "getTime mondayMorning t0 = Num 0"
    by (simp_all add: mondayMorning_def epochParser_def t60_def t0_def)
  have "loopBody mondayMorning (fixAt 15 15 t60) ''u1'' squareZone False []
          \<lparr> s_userId = ''u1'', currentGeofences = [entryAt0], lastGeofenceExit = None \<rparr> =
      ([exitEvent mondayMorning (fixAt 15 15 t60) ''u1'' squareZone 0 (Num 1)],
       \<lparr> s_userId = ''u1'', currentGeofences = [],
         lastGeofenceExit = Some \<lparr> x_geofenceId = ''z1'', exitTime = t60, x_duration = Num 1 \<rparr> \<rparr>)"
    by (simp add: loopBody_simps wasInsideOf_def entryAt0_def squareZone_id exitDuration_def
          fixAt_timestamp t)
  then show ?thesis
    unfolding single_zone_step [OF enteredService_active square_excludes_15_15]
    by (simp add: enteredService_status) (simp add: enteredService_eq oneZoneService_def)
qed

lemma reenteredService_eq:
  "reenteredService =
     oneZoneService \<lparr> userStatus := [''u1'' \<mapsto>
       \<lparr> s_userId = ''u1'',
         currentGeofences = [\<lparr> geofenceId = ''z1'', entryTime = t125, isAuthorized = True \<rparr>],
         lastGeofenceExit = Some \<lparr> x_geofenceId = ''z1'', exitTime = t60, x_duration = Num 1 \<rparr> \<rparr>] \<rparr>"
proof -
  let ?svc2 = "oneZoneService \<lparr> userStatus := [''u1'' \<mapsto>
       \<lparr> s_userId = ''u1'', currentGeofences = [],
         lastGeofenceExit = Some \<lparr> x_geofenceId = ''z1'', exitTime = t60, x_duration = Num 1 \<rparr> \<rparr>] \<rparr>"
  have a2: "activeGeofences ?svc2 = [squareZone]" by (simp add: oneZoneService_def)
  have "loopBody mondayMorning (fixAt 5 5 t125) ''u1'' squareZone True []
          \<lparr> s_userId = ''u1'', currentGeofences = [],
            lastGeofenceExit = Some \<lparr> x_geofenceId = ''z1'', exitTime = t60, x_duration = Num 1 \<rparr> \<rparr> =
      ([enterEvent mondayMorning (fixAt 5 5 t125) ''u1'' squareZone 0],
       \<lparr> s_userId = ''u1'',
         currentGeofences = [\<lparr> geofenceId = ''z1'', entryTime = t125, isAuthorized = True \<rparr>],
         lastGeofenceExit = Some \<lparr> x_geofenceId = ''z1'', exitTime = t60, x_duration = Num 1 \<rparr> \<rparr>)"
    by (simp add: loopBody_simps wasInsideOf_def squareZone_id squareZone_authorized fixAt_timestamp)
  then have "snd (checkGeofenceEntry mondayMorning (fixAt 5 5 t125) ''u1'' ?svc2) =
     oneZoneService \<lparr> userStatus := [''u1'' \<mapsto>
       \<lparr> s_userId = ''u1'',
         currentGeofences = [\<lparr> geofenceId = ''z1'', entryTime = t125, isAuthorized = True \<rparr>],
         lastGeofenceExit = Some \<lparr> x_geofenceId = ''z1'', exitTime = t60, x_duration = Num 1 \<rparr> \<rparr>] \<rparr>"
    unfolding single_zone_step [OF a2 square_contains_5_5]
    by (simp add: oneZoneService_def)
  then show ?thesis
    by (simp add: reenteredService_def Let_def enteredService_def [symmetric] exitedService_eq)
qed

text \<open>
  Claim C7, as amended. A successful \<open>deleteGeofence\<close> returns no event, removes the zone
  from the active-zone cache, and removes every entry for the zone from the
  \<open>currentGeofences\<close> list of every subject; the entries for other zone ids stay as they
  are, in their order, and no subject is added or dropped. The last-exit record of a
  subject is left as it is, also when it names the deleted zone.
\<close>

theorem delete_purges_current_entries:
  "fst (deleteGeofence z (Response True body) svc) = Inr () \<and>
   activeGeofences (snd (deleteGeofence z (Response True body) svc)) =
     filter (\<lambda>g. g_id g \<noteq> z) (activeGeofences svc) \<and>
   z \<notin> g_id ` set (activeGeofences (snd (deleteGeofence z (Response True body) svc))) \<and>
   dom (userStatus (snd (deleteGeofence z (Response True body) svc))) = dom (userStatus svc) \<and>
   storedEntries (snd (deleteGeofence z (Response True body) svc)) u =
     filter (\<lambda>e. geofenceId e \<noteq> z) (storedEntries svc u) \<and>
   entriesFor z (snd (deleteGeofence z (Response True body) svc)) u = [] \<and>
   (z' \<noteq> z \<longrightarrow>
      entriesFor z' (snd (deleteGeofence z (Response True body) svc)) u = entriesFor z' svc u) \<and>
   map_option lastGeofenceExit (userStatus (snd (deleteGeofence z (Response True body) svc)) u) =
     map_option lastGeofenceExit (userStatus svc u)"
proof (intro conjI impI)
  show "fst (deleteGeofence z (Response True body) svc) = Inr ()"
    by (simp add: deleteGeofence_def)
  show "activeGeofences (snd (deleteGeofence z (Response True body) svc)) =
     filter (\<lambda>g. g_id g \<noteq> z) (activeGeofences svc)"
    by (simp add: deleteGeofence_def)
  then show "z \<notin> g_id ` set (activeGeofences (snd (deleteGeofence z (Response True body) svc)))"
    by auto
  show "dom (userStatus (snd (deleteGeofence z (Response True body) svc))) = dom (userStatus svc)"
    by (auto simp: deleteGeofence_def dom_def)
  show "storedEntries (snd (deleteGeofence z (Response True body) svc)) u =
     filter (\<lambda>e. geofenceId e \<noteq> z) (storedEntries svc u)"
    by (rule deleteGeofence_stored)
  show "entriesFor z (snd (deleteGeofence z (Response True body) svc)) u = []"
    by (simp add: entriesFor_stored deleteGeofence_stored)
  show "map_option lastGeofenceExit (userStatus (snd (deleteGeofence z (Response True body) svc)) u) =
     map_option lastGeofenceExit (userStatus svc u)"
    by (cases "userStatus svc u") (simp_all add: deleteGeofence_def purgeStatus_def)
next
  assume "z' \<noteq> z"
  then have "filter (\<lambda>e. geofenceId e = z') (filter (\<lambda>e. geofenceId e \<noteq> z) (storedEntries svc u)) =
      filter (\<lambda>e. geofenceId e = z') (storedEntries svc u)"
    by (auto intro: filter_cong)
  then show "entriesFor z' (snd (deleteGeofence z (Response True body) svc)) u = entriesFor z' svc u"
    by (simp add: entriesFor_stored deleteGeofence_stored)
qed

theorem delete_purges_current_entries_witness:
  "''z1'' \<noteq> ''z2'' \<and>
   entriesFor ''z1'' (snd (deleteGeofence ''z2'' (Response True None) enteredService)) ''u1'' =
     [entryAt0] \<and>
   entriesFor ''z1'' (snd (deleteGeofence ''z1'' (Response True None) enteredService)) ''u1'' = []"
proof -
  have ne: "''z1'' \<noteq> ''z2''" by simp
  have e: "entriesFor ''z1'' enteredService ''u1'' = [entryAt0]"
    by (simp add: entriesFor_stored enteredService_stored entryAt0_def)
  from delete_purges_current_entries [of "''z2''" None enteredService "''u1''" "''z1''"] ne
  have "entriesFor ''z1'' (snd (deleteGeofence ''z2'' (Response True None) enteredService)) ''u1'' =
      entriesFor ''z1'' enteredService ''u1''"
    by blast
  moreover from delete_purges_current_entries [of "''z1''" None enteredService "''u1''" "''z2''"]
  have "entriesFor ''z1'' (snd (deleteGeofence ''z1'' (Response True None) enteredService)) ''u1'' = []"
    by blast
  ultimately show ?thesis using ne e by simp
qed

text \<open>
  The claim as first stated fails for the last-exit record: a subject who left the square
  and came back keeps the record of that exit, with the zone id in it, after the square is
  deleted.
\<close>

theorem delete_keeps_last_exit_counterexample:
  "userStatus reenteredService ''u1'' =
     Some \<lparr> s_userId = ''u1'',
            currentGeofences = [\<lparr> geofenceId = ''z1'', entryTime = t125, isAuthorized = True \<rparr>],
            lastGeofenceExit = Some \<lparr> x_geofenceId = ''z1'', exitTime = t60, x_duration = Num 1 \<rparr> \<rparr> \<and>
   userStatus (snd (deleteGeofence ''z1'' (Response True None) reenteredService)) ''u1'' =
     Some \<lparr> s_userId = ''u1'', currentGeofences = [],
            lastGeofenceExit = Some \<lparr> x_geofenceId = ''z1'', exitTime = t60, x_duration = Num 1 \<rparr> \<rparr>"
  by (simp add: reenteredService_eq deleteGeofence_def purgeStatus_def)

section \<open>Deactivating a zone\<close>


lemma findIndex_None: "findIndex P xs = None \<Longrightarrow> \<forall>x\<in>set xs. \<not> P x"
  by (induction xs) (auto split: if_splits)





text \<open>
  A cache that holds each zone id once keeps doing so, whatever the calls, as long as the
  server answers as described by \<open>serverKeepsIds\<close>. The code itself does not check ids.
\<close>

lemma findIndex_Some:
  "findIndex P xs = Some i \<Longrightarrow> i < length xs \<and> P (xs ! i)"
proof (induction xs arbitrary: i)
  case Nil
  then show ?case by simp
next
  case (Cons x xs)
  then show ?case by (auto split: if_splits)
qed

lemma distinct_splice1: "distinct (map f xs) \<Longrightarrow> distinct (map f (splice1 i xs))"
proof -
  assume d: "distinct (map f xs)"
  have "map f xs = map f (take i xs) @ map f (drop i xs)"
    by (simp flip: map_append)
  with d have d1: "distinct (map f (take i xs))" and d2: "distinct (map f (drop i xs))"
    and dj: "set (map f (take i xs)) \<inter> set (map f (drop i xs)) = {}"
    by (metis distinct_append)+
  have sub: "set (drop (Suc i) xs) \<subseteq> set (drop i xs)"
    by (metis drop_Suc set_drop_subset tl_drop drop_eq_Nil2 list.sel(2) list.set_sel(2) subsetI)
  have d3: "distinct (map f (drop (Suc i) xs))"
    using d by (simp add: distinct_drop flip: drop_map)
  from d1 d3 dj sub show ?thesis
    by (auto simp: splice1_def)
qed

lemma step_registry_distinct:
  assumes "distinct (map g_id (activeGeofences svc))" and "serverKeepsIds opn svc"
  shows "distinct (map g_id (activeGeofences (step opn svc)))"
proof (cases opn)
  case (CheckEntry rt loc u)
  then show ?thesis using assms by (simp add: checkGeofenceEntry_activeGeofences)
next
  case (Delete z resp)
  then show ?thesis using assms
    by (auto simp: deleteGeofence_def distinct_map_filter split: fetched.splits)
next
  case (Update z resp)
  show ?thesis
  proof (cases resp)
    case Rejected
    with Update assms show ?thesis by (simp add: updateGeofence_def)
  next
    case (Response ok body)
    show ?thesis
    proof (cases body)
      case None
      with Update Response assms show ?thesis by (simp add: updateGeofence_def)
    next
      case (Some g)
      with Update Response assms have gid: "g_id g = z" by simp
      show ?thesis
      proof (cases "findIndex (\<lambda>x. g_id x = z) (activeGeofences svc)")
        case None
        from findIndex_None [OF None] have "z \<notin> g_id ` set (activeGeofences svc)" by auto
        with Update Response Some None assms gid show ?thesis
          by (simp add: updateGeofence_def)
      next
        case (Some i)
        from findIndex_Some [OF Some] have i: "i < length (activeGeofences svc)"
          and zi: "g_id (activeGeofences svc ! i) = z" by simp_all
        have "map g_id ((activeGeofences svc)[i := g]) = map g_id (activeGeofences svc)"
          using i zi gid by (simp add: map_update list_update_same_conv)
        with Update Response \<open>body = Some g\<close> Some assms show ?thesis
          by (simp add: updateGeofence_def distinct_splice1)
      qed
    qed
  qed
next
  case (Create resp)
  show ?thesis
  proof (cases resp)
    case Rejected
    with Create assms show ?thesis by (simp add: createGeofence_def)
  next
    case (Response ok body)
    with Create assms show ?thesis
      by (cases body) (auto simp: createGeofence_def)
  qed
next
  case (Load resp)
  show ?thesis
  proof (cases resp)
    case Rejected
    with Load assms show ?thesis by (simp add: loadGeofences_def)
  next
    case (Response ok body)
    with Load assms show ?thesis
      by (cases body; cases ok) (auto simp: loadGeofences_def distinct_map_filter)
  qed
qed

lemma run_registry_distinct:
  "distinct (map g_id (activeGeofences svc)) \<Longrightarrow> serverKeepsIdsAll ops svc \<Longrightarrow>
   distinct (map g_id (activeGeofences (run ops svc)))"
  by (induction ops arbitrary: svc) (simp_all add: step_registry_distinct)





section \<open>The validation of POST\<close>

lemma POST_rejects_iff:
  "(\<exists>msg. fst (POST rr body locationData) = Json 400 (PostError msg)) \<longleftrightarrow>
   r_latitude body = None \<or> r_latitude body = Some 0 \<or>
   r_longitude body = None \<or> r_longitude body = Some 0 \<or>
   r_timestamp body = None \<or> r_timestamp body = Some []"
  by (auto simp: POST_def falsyNum_def falsyStr_def Let_def split: option.splits)

text \<open>
  Claim C8. The claim has a location update rejected exactly when latitude, longitude or
  timestamp is missing. The validation \<open>!body.latitude || !body.longitude || !body.timestamp\<close>
  also rejects a latitude or longitude of 0 and an empty timestamp: the update below
  supplies all three fields, on the equator, and is answered with status 400 and the
  message that the fields are required; nothing is stored.
\<close>

theorem post_rejects_latitude_zero:
  "r_latitude equatorFix = Some 0 \<and> r_longitude equatorFix = Some 10 \<and>
   r_timestamp equatorFix = Some t0 \<and>
   POST rr equatorFix locationData =
     (Json 400 (PostError ''Latitude, longitude, and timestamp are required''), locationData)"
  by (simp add: POST_def equatorFix_def falsyNum_def)

section \<open>The statistics loop\<close>


lemma js_ge_Num: "js_ge v w \<Longrightarrow> \<exists>a. v = Num a"
  by (cases v; cases w) simp_all

lemma selectLocations_times:
  "l \<in> set (selectLocations rr userId startText endText locationData) \<Longrightarrow>
   \<exists>a. dateValue rr (timestamp l) = Num a"
  by (auto simp: selectLocations_def Let_def dest: js_ge_Num)



section \<open>Signs\<close>








section \<open>The exact arithmetic\<close>





section \<open>The trip evaluated\<close>



















section \<open>The trajectory summary\<close>





end
